theory Spec2Isabelle
  imports Main "HOL-Library.Word"
begin

section \<open>Trade::MeshData of Magnum: the data model\<close>

text \<open>
  The development follows \<^verbatim>\<open>src/Magnum/Trade/MeshData.h\<close> and
  \<^verbatim>\<open>src/Magnum/Trade/MeshData.cpp\<close>. The size of a view or of an array
  (\<^verbatim>\<open>std::size_t\<close>) is a natural number with no bound. Where a function returns the
  size of a view as \<^verbatim>\<open>UnsignedInt\<close> (\<^verbatim>\<open>indexCount()\<close>, \<^verbatim>\<open>vertexCount()\<close>), the
  conversion to 32 bits is written out as \<open>mod 2 ^ 32\<close>. Slots and counts of attribute
  descriptors are natural numbers: the only subtraction on them (\<^verbatim>\<open>id--\<close> in
  \<^verbatim>\<open>attributeFor\<close>) is taken on a non-zero value whenever the loop goes on. Pointers
  are addresses, with the address \<open>0\<close> for \<^verbatim>\<open>nullptr\<close>.
\<close>

type_synonym pointer = nat

definition nullptr :: pointer where
  "nullptr = 0"

text \<open>\<^verbatim>\<open>enum class MeshAttributeType: UnsignedByte\<close> (MeshData.h, line 46).\<close>

datatype MeshAttributeType = Vector2 | Vector3 | Vector4

text \<open>
  \<^verbatim>\<open>enum class MeshAttributeName: UnsignedByte\<close> (MeshData.h, line 75). \<open>Custom k\<close>
  is the importer-specific name of value \<open>128 + k\<close>.
\<close>

datatype MeshAttributeName =
  Positions2D | Positions3D | Normals | TextureCoordinates2D | Colors | Custom nat

text \<open>
  Modelled from the spec: \<^verbatim>\<open>MeshIndexType\<close> is declared in \<^verbatim>\<open>Magnum/Mesh.h\<close>, which
  is not among the sources. The spec gives it as the enumeration UnsignedByte |
  UnsignedShort | UnsignedInt, fixing the element width of the index buffer at 1, 2 or
  4 bytes; these are also the three cases of every \<^verbatim>\<open>switch\<close> over it in
  MeshData.cpp. With the type closed, the \<^verbatim>\<open>CORRADE_ASSERT_UNREACHABLE()\<close> after
  those switches has no branch in the model.
\<close>

datatype MeshIndexType = UnsignedByte | UnsignedShort | UnsignedInt

fun elementWidth :: "MeshIndexType \<Rightarrow> nat" where
  "elementWidth UnsignedByte = 1"
| "elementWidth UnsignedShort = 2"
| "elementWidth UnsignedInt = 4"

text \<open>
  Modelled from the spec: the containers of Corrade (\<^verbatim>\<open>Containers::ArrayView\<close>,
  \<^verbatim>\<open>Containers::StridedArrayView\<close>, \<^verbatim>\<open>Containers::Array\<close>) are not among the
  sources. A byte-range view is a non-owning reference to a contiguous span of bytes; a
  strided view describes an element count and a per-element byte stride over a region
  of memory; an owned buffer is a heap-allocated region with exactly one owner at a
  time. The absent view is the empty (null) one, and assigning \<^verbatim>\<open>nullptr\<close> to a view
  or to an array makes it that.
\<close>

record ArrayView =
  view_data :: pointer
  view_size :: nat

record StridedArrayView =
  sview_data :: pointer
  sview_size :: nat
  sview_stride :: nat

record Array =
  array_data :: pointer
  array_size :: nat

definition ArrayView_nullptr :: ArrayView where
  "ArrayView_nullptr = \<lparr>view_data = nullptr, view_size = 0\<rparr>"

definition Array_nullptr :: Array where
  "Array_nullptr = \<lparr>array_data = nullptr, array_size = 0\<rparr>"

text \<open>
  Modelled from the spec: the conversion of a view to \<^verbatim>\<open>bool\<close>, which
  \<^verbatim>\<open>isIndexed()\<close> returns, is Corrade's. It tells whether the view is there (non-empty,
  that is, not the null view).
\<close>

definition ArrayView_bool :: "ArrayView \<Rightarrow> bool" where
  "ArrayView_bool v = (view_data v \<noteq> nullptr)"

text \<open>
  Modelled from the spec: the move constructor of \<^verbatim>\<open>Containers::Array\<close> is Corrade's.
  A move transfers the buffer and leaves the source empty. The result is the new owner
  and the source as it is left.
\<close>

definition Array_move :: "Array \<Rightarrow> Array \<times> Array" where
  "Array_move other = (other, Array_nullptr)"

text \<open>
  \<^verbatim>\<open>class MeshIndexData\<close> (MeshData.h, line 128): the members \<^verbatim>\<open>type\<close> and
  \<^verbatim>\<open>data\<close>, and the constructor that takes the index type and a view of bytes
  (line 143). The three constructors that take a typed view are not needed below.
\<close>

record MeshIndexData =
  index_type :: MeshIndexType
  index_data :: ArrayView

definition MeshIndexData_new :: "MeshIndexType \<Rightarrow> ArrayView \<Rightarrow> MeshIndexData" where
  "MeshIndexData_new t d = \<lparr>index_type = t, index_data = d\<rparr>"

text \<open>
  \<^verbatim>\<open>class MeshAttributeData\<close> (MeshData.h, line 182): the members \<^verbatim>\<open>name\<close>,
  \<^verbatim>\<open>type\<close> and \<^verbatim>\<open>data\<close>.
\<close>

record MeshAttributeData =
  attr_name :: MeshAttributeName
  attr_type :: MeshAttributeType
  attr_data :: StridedArrayView

definition MeshAttributeData_new ::
  "MeshAttributeName \<Rightarrow> MeshAttributeType \<Rightarrow> StridedArrayView \<Rightarrow> MeshAttributeData" where
  "MeshAttributeData_new n t d = \<lparr>attr_name = n, attr_type = t, attr_data = d\<rparr>"

text \<open>
  \<^verbatim>\<open>class MeshData\<close> (MeshData.h, line 215). The array of attributes is a list: it
  is null exactly when it is empty. The members \<^verbatim>\<open>_primitive\<close> and \<^verbatim>\<open>_indexType\<close>
  (lines 518 and 519) are declared, but the constructor does not initialise them and
  no member function names them; they are left out.
\<close>

record MeshData =
  m_indexData :: Array
  m_vertexData :: Array
  m_indices :: MeshIndexData
  m_attributes :: "MeshAttributeData list"
  m_importerState :: pointer

text \<open>
  Modelled from the spec: \<^verbatim>\<open>CORRADE_ASSERT\<close> and \<^verbatim>\<open>CORRADE_INTERNAL_ASSERT\<close> are
  Corrade's. A contract violation is reported by an assertion that halts the checked
  build; the model is of the checked build, and a failed assertion is the result
  \<open>Inl\<close> of the function, named after the assertion's message. The last value,
  \<open>NoValueReturned\<close>, is no assertion: it stands for a function body that ends
  without a \<^verbatim>\<open>return\<close>.
\<close>

datatype failure =
  AttributeOutOfBounds
| IndicesImproperType
| AttributeOutOfRange
| AttributeImproperType
| InternalAssert
| NoValueReturned

section \<open>Construction and the simple accessors\<close>

text \<open>
  The constructor (MeshData.cpp, lines 30 to 34) moves or copies its five arguments
  into the members. Its body holds three \<^verbatim>\<open>@todo\<close> comments and no statement.
\<close>

definition MeshData_new ::
  "Array \<Rightarrow> Array \<Rightarrow> MeshIndexData \<Rightarrow> MeshAttributeData list \<Rightarrow> pointer \<Rightarrow> MeshData" where
  "MeshData_new indexData vertexData indices attributes importerState =
     \<lparr>m_indexData = fst (Array_move indexData),
      m_vertexData = fst (Array_move vertexData),
      m_indices = indices,
      m_attributes = attributes,
      m_importerState = importerState\<rparr>"

text \<open>\<^verbatim>\<open>indexData()\<close> and \<^verbatim>\<open>vertexData()\<close>: views of the owned arrays.\<close>

definition indexData :: "MeshData \<Rightarrow> ArrayView" where
  "indexData m =
     \<lparr>view_data = array_data (m_indexData m), view_size = array_size (m_indexData m)\<rparr>"

definition vertexData :: "MeshData \<Rightarrow> ArrayView" where
  "vertexData m =
     \<lparr>view_data = array_data (m_vertexData m), view_size = array_size (m_vertexData m)\<rparr>"

definition isIndexed :: "MeshData \<Rightarrow> bool" where
  "isIndexed m = ArrayView_bool (index_data (m_indices m))"

definition indexType :: "MeshData \<Rightarrow> MeshIndexType" where
  "indexType m = index_type (m_indices m)"

definition importerState :: "MeshData \<Rightarrow> pointer" where
  "importerState m = m_importerState m"

text \<open>
  \<^verbatim>\<open>indexCount()\<close> (MeshData.cpp, lines 42 to 50). Each case computes a
  \<^verbatim>\<open>std::size_t\<close> and returns it as \<^verbatim>\<open>UnsignedInt\<close>.
\<close>

definition indexCount :: "MeshData \<Rightarrow> nat" where
  "indexCount m =
     (case index_type (m_indices m) of
        UnsignedByte \<Rightarrow> view_size (index_data (m_indices m)) mod 2 ^ 32
      | UnsignedShort \<Rightarrow> (view_size (index_data (m_indices m)) div 2) mod 2 ^ 32
      | UnsignedInt \<Rightarrow> (view_size (index_data (m_indices m)) div 4) mod 2 ^ 32)"

text \<open>
  \<^verbatim>\<open>vertexCount()\<close> (MeshData.h, lines 337 to 339). The size of the view of slot 0
  is a \<^verbatim>\<open>std::size_t\<close>, returned as \<^verbatim>\<open>UnsignedInt\<close>.
\<close>

definition vertexCount :: "MeshData \<Rightarrow> nat" where
  "vertexCount m =
     (case m_attributes m of
        [] \<Rightarrow> 0
      | a # _ \<Rightarrow> sview_size (attr_data a) mod 2 ^ 32)"




text \<open>
  \<^verbatim>\<open>attributeFor(name, id)\<close> (MeshData.cpp, lines 71 to 75). The loop runs over the
  slots from \<open>i = 0\<close>; at a slot of the name sought, \<^verbatim>\<open>!id--\<close> ends the search when
  \<open>id\<close> is zero and takes one off it otherwise; a slot of another name leaves \<open>id\<close>
  alone. After the last slot the assertion fails.
\<close>

fun attributeFor_loop ::
  "MeshAttributeData list \<Rightarrow> MeshAttributeName \<Rightarrow> nat \<Rightarrow> nat \<Rightarrow> failure + nat" where
  "attributeFor_loop [] name ident i = Inl AttributeOutOfBounds"
| "attributeFor_loop (attribute # rest) name ident i =
     (if attr_name attribute = name then
        (if ident = 0 then Inr i else attributeFor_loop rest name (ident - 1) (i + 1))
      else attributeFor_loop rest name ident (i + 1))"

definition attributeFor :: "MeshData \<Rightarrow> MeshAttributeName \<Rightarrow> nat \<Rightarrow> failure + nat" where
  "attributeFor m name ident = attributeFor_loop (m_attributes m) name ident 0"

section \<open>Typed access\<close>

text \<open>
  The template argument of \<^verbatim>\<open>indices<T>()\<close> is one of the three types for which
  \<^verbatim>\<open>Implementation::meshIndexTypeFor\<close> is specialised (MeshData.h, lines 527 to 530),
  the one of \<^verbatim>\<open>attribute<T>()\<close> one of the five types for which
  \<^verbatim>\<open>Implementation::meshAttributeTypeFor\<close> is (lines 532 to 537); any other type
  does not compile.
\<close>

datatype IndexElement = T_UnsignedByte | T_UnsignedShort | T_UnsignedInt

datatype AttributeElement = T_Vector2 | T_Vector3 | T_Color3 | T_Vector4 | T_Color4

fun meshIndexTypeFor :: "IndexElement \<Rightarrow> MeshIndexType" where
  "meshIndexTypeFor T_UnsignedByte = UnsignedByte"
| "meshIndexTypeFor T_UnsignedShort = UnsignedShort"
| "meshIndexTypeFor T_UnsignedInt = UnsignedInt"

fun meshAttributeTypeFor :: "AttributeElement \<Rightarrow> MeshAttributeType" where
  "meshAttributeTypeFor T_Vector2 = Vector2"
| "meshAttributeTypeFor T_Vector3 = Vector3"
| "meshAttributeTypeFor T_Color3 = Vector3"
| "meshAttributeTypeFor T_Vector4 = Vector4"
| "meshAttributeTypeFor T_Color4 = Vector4"

fun sizeof :: "IndexElement \<Rightarrow> nat" where
  "sizeof T_UnsignedByte = 1"
| "sizeof T_UnsignedShort = 2"
| "sizeof T_UnsignedInt = 4"

text \<open>
  Modelled from the spec: \<^verbatim>\<open>Containers::arrayCast\<close> is Corrade's. It reinterprets
  the raw bytes as a typed view: the same memory, seen as elements of the requested
  type. The size of a typed view counts elements, so a view of bytes cast to elements
  of \<open>w\<close> bytes has the byte length divided by \<open>w\<close> of them, as \<^verbatim>\<open>indexCount()\<close>
  computes it. A strided view keeps its address, its element count and its stride.
\<close>

definition arrayCast :: "nat \<Rightarrow> ArrayView \<Rightarrow> ArrayView" where
  "arrayCast w v = \<lparr>view_data = view_data v, view_size = view_size v div w\<rparr>"

definition arrayCast_strided :: "StridedArrayView \<Rightarrow> StridedArrayView" where
  "arrayCast_strided v = v"

text \<open>\<^verbatim>\<open>indices<T>()\<close> (MeshData.h, lines 542 to 546).\<close>

definition indices_typed :: "IndexElement \<Rightarrow> MeshData \<Rightarrow> failure + ArrayView" where
  "indices_typed T m =
     (if meshIndexTypeFor T \<noteq> index_type (m_indices m) then Inl IndicesImproperType
      else Inr (arrayCast (sizeof T) (index_data (m_indices m))))"

text \<open>
  \<^verbatim>\<open>attribute<T>(id)\<close> (MeshData.h, lines 548 to 554) and
  \<^verbatim>\<open>attribute<T>(name, id)\<close> (lines 421 to 423).
\<close>

definition attribute :: "AttributeElement \<Rightarrow> MeshData \<Rightarrow> nat \<Rightarrow> failure + StridedArrayView" where
  "attribute T m ident =
     (if \<not> ident < length (m_attributes m) then Inl AttributeOutOfRange
      else if meshAttributeTypeFor T \<noteq> attr_type (m_attributes m ! ident)
        then Inl AttributeImproperType
      else Inr (arrayCast_strided (attr_data (m_attributes m ! ident))))"

definition attribute_named ::
  "AttributeElement \<Rightarrow> MeshData \<Rightarrow> MeshAttributeName \<Rightarrow> nat \<Rightarrow> failure + StridedArrayView" where
  "attribute_named T m name ident =
     (case attributeFor m name ident of
        Inl e \<Rightarrow> Inl e
      | Inr i \<Rightarrow> attribute T m i)"

section \<open>Conversions\<close>

text \<open>
  The memory the views address is a function from addresses to bytes. An element of
  \<open>w\<close> bytes at an address is read in the byte order of the platform; its value is
  kept as a natural number below \<open>256 ^ w\<close>.
\<close>

type_synonym memory = "pointer \<Rightarrow> 8 word"

datatype ByteOrder = LittleEndian | BigEndian

fun bytes_value :: "8 word list \<Rightarrow> nat" where
  "bytes_value [] = 0"
| "bytes_value (b # bs) = unat b + 256 * bytes_value bs"

definition load :: "ByteOrder \<Rightarrow> memory \<Rightarrow> pointer \<Rightarrow> nat \<Rightarrow> nat" where
  "load bo mem p w =
     (case bo of
        LittleEndian \<Rightarrow> bytes_value (map (\<lambda>k. mem (p + k)) [0..<w])
      | BigEndian \<Rightarrow> bytes_value (rev (map (\<lambda>k. mem (p + k)) [0..<w])))"

text \<open>
  \<^verbatim>\<open>convertIndices<T>(data)\<close> (MeshData.cpp, lines 78 to 83): the view is cast to
  \<open>T\<close>, an array of as many \<^verbatim>\<open>UnsignedInt\<close> is allocated, and the loop stores
  \<^verbatim>\<open>input[i]\<close>, converted to \<^verbatim>\<open>UnsignedInt\<close>, at \<^verbatim>\<open>output[i]\<close>. The new array is
  the list of its elements.
\<close>

definition convertIndices :: "IndexElement \<Rightarrow> ByteOrder \<Rightarrow> memory \<Rightarrow> ArrayView \<Rightarrow> 32 word list" where
  "convertIndices T bo mem data =
     (let input = arrayCast (sizeof T) data
      in map (\<lambda>i. of_nat (load bo mem (view_data input + i * sizeof T) (sizeof T)))
           [0..<view_size input])"

text \<open>\<^verbatim>\<open>indices()\<close> (MeshData.cpp, lines 86 to 94).\<close>

definition indices :: "ByteOrder \<Rightarrow> memory \<Rightarrow> MeshData \<Rightarrow> 32 word list" where
  "indices bo mem m =
     (case index_type (m_indices m) of
        UnsignedByte \<Rightarrow> convertIndices T_UnsignedByte bo mem (index_data (m_indices m))
      | UnsignedShort \<Rightarrow> convertIndices T_UnsignedShort bo mem (index_data (m_indices m))
      | UnsignedInt \<Rightarrow> convertIndices T_UnsignedInt bo mem (index_data (m_indices m)))"

text \<open>
  \<^verbatim>\<open>positions2D(id)\<close> (MeshData.cpp, lines 96 to 102). The body has the lookup of the
  slot and the internal assertion on its type, and stops there: the cast that follows
  names a type \<open>T\<close> that is not declared and has no argument, the output array is
  declared with no size and the declaration is not closed, there is no loop and no
  \<^verbatim>\<open>return\<close>. The model follows the two statements that are complete; past them the
  function has no array to give back, which is the result \<open>NoValueReturned\<close>. A
  \<^verbatim>\<open>Vector2\<close> is a pair of 32-bit floats, kept as their bit patterns.
\<close>

type_synonym Math_Vector2 = "32 word \<times> 32 word"

definition positions2D :: "MeshData \<Rightarrow> nat \<Rightarrow> failure + Math_Vector2 list" where
  "positions2D m ident =
     (case attributeFor m Positions2D ident of
        Inl e \<Rightarrow> Inl e
      | Inr attributeId \<Rightarrow>
          (if attr_type (m_attributes m ! attributeId) \<noteq> Vector2 then Inl InternalAssert
           else Inl NoValueReturned))"

section \<open>Release and move\<close>

text \<open>
  \<^verbatim>\<open>releaseIndices()\<close> and \<^verbatim>\<open>releaseVertices()\<close> (MeshData.cpp, lines 104 to 112):
  the array returned, and the container as the call leaves it.
\<close>

definition releaseIndices :: "MeshData \<Rightarrow> Array \<times> MeshData" where
  "releaseIndices m =
     (let m1 = m\<lparr>m_indices := (m_indices m)\<lparr>index_data := ArrayView_nullptr\<rparr>\<rparr>;
          (released, left) = Array_move (m_indexData m1)
      in (released, m1\<lparr>m_indexData := left\<rparr>))"

definition releaseVertices :: "MeshData \<Rightarrow> Array \<times> MeshData" where
  "releaseVertices m =
     (let m1 = m\<lparr>m_attributes := []\<rparr>;
          (released, left) = Array_move (m_vertexData m1)
      in (released, m1\<lparr>m_vertexData := left\<rparr>))"




section \<open>The members after construction\<close>

lemma MeshData_new_sel:
  "m_indexData (MeshData_new i v d as p) = i"
  "m_vertexData (MeshData_new i v d as p) = v"
  "m_indices (MeshData_new i v d as p) = d"
  "m_attributes (MeshData_new i v d as p) = as"
  "m_importerState (MeshData_new i v d as p) = p"
  by (simp_all add: MeshData_new_def Array_move_def)

section \<open>Lookup by name\<close>







section \<open>Construction and counts\<close>

text \<open>
  C1. The constructor is to reject attributes whose views differ in element count, so
  that \<^verbatim>\<open>vertexCount()\<close> is the element count of every attribute. It has no check:
  given a vertex buffer of 52 bytes with a Positions2D attribute of 2 elements and a
  Colors attribute of 3, it completes, and the container answers 2 for
  \<^verbatim>\<open>vertexCount()\<close> while its second attribute has 3 elements.
\<close>

theorem MeshData_new_accepts_mismatched_counts:
  "vertexCount
     (MeshData_new Array_nullptr \<lparr>array_data = 4096, array_size = 52\<rparr>
        (MeshIndexData_new UnsignedByte ArrayView_nullptr)
        [MeshAttributeData_new Positions2D Vector2
           \<lparr>sview_data = 4096, sview_size = 2, sview_stride = 8\<rparr>,
         MeshAttributeData_new Colors Vector3
           \<lparr>sview_data = 4112, sview_size = 3, sview_stride = 12\<rparr>]
        nullptr) = 2 \<and>
   map (\<lambda>a. sview_size (attr_data a))
     (m_attributes
       (MeshData_new Array_nullptr \<lparr>array_data = 4096, array_size = 52\<rparr>
          (MeshIndexData_new UnsignedByte ArrayView_nullptr)
          [MeshAttributeData_new Positions2D Vector2
             \<lparr>sview_data = 4096, sview_size = 2, sview_stride = 8\<rparr>,
           MeshAttributeData_new Colors Vector3
             \<lparr>sview_data = 4112, sview_size = 3, sview_stride = 12\<rparr>]
          nullptr)) = [2, 3]"
  by (simp add: vertexCount_def MeshData_new_sel MeshAttributeData_new_def)

text \<open>
  C2. The constructor is to reject an index view whose byte length is not a multiple
  of the element width, so that \<^verbatim>\<open>indexCount()\<close> times the width is the byte length
  of the index data. It has no check: given an owned index array of 5 bytes and the
  index type UnsignedShort over these 5 bytes, it completes, and the container counts
  2 indices of width 2 while its \<^verbatim>\<open>indexData()\<close>, like its index view, has 5 bytes.
\<close>

theorem MeshData_new_accepts_odd_index_bytes:
  "indexCount
     (MeshData_new \<lparr>array_data = 4096, array_size = 5\<rparr> Array_nullptr
        (MeshIndexData_new UnsignedShort \<lparr>view_data = 4096, view_size = 5\<rparr>) [] nullptr) = 2 \<and>
   elementWidth (indexType
     (MeshData_new \<lparr>array_data = 4096, array_size = 5\<rparr> Array_nullptr
        (MeshIndexData_new UnsignedShort \<lparr>view_data = 4096, view_size = 5\<rparr>) [] nullptr)) = 2 \<and>
   view_size (indexData
     (MeshData_new \<lparr>array_data = 4096, array_size = 5\<rparr> Array_nullptr
        (MeshIndexData_new UnsignedShort \<lparr>view_data = 4096, view_size = 5\<rparr>) [] nullptr)) = 5 \<and>
   view_size (index_data (m_indices
     (MeshData_new \<lparr>array_data = 4096, array_size = 5\<rparr> Array_nullptr
        (MeshIndexData_new UnsignedShort \<lparr>view_data = 4096, view_size = 5\<rparr>) [] nullptr))) = 5 \<and>
   indexCount
     (MeshData_new \<lparr>array_data = 4096, array_size = 5\<rparr> Array_nullptr
        (MeshIndexData_new UnsignedShort \<lparr>view_data = 4096, view_size = 5\<rparr>) [] nullptr)
     * elementWidth (indexType
         (MeshData_new \<lparr>array_data = 4096, array_size = 5\<rparr> Array_nullptr
            (MeshIndexData_new UnsignedShort \<lparr>view_data = 4096, view_size = 5\<rparr>) [] nullptr))
   \<noteq> view_size (indexData
         (MeshData_new \<lparr>array_data = 4096, array_size = 5\<rparr> Array_nullptr
            (MeshIndexData_new UnsignedShort \<lparr>view_data = 4096, view_size = 5\<rparr>) [] nullptr))"
  by (simp add: indexCount_def indexType_def indexData_def MeshData_new_sel
      MeshIndexData_new_def)

text \<open>
  C9, as stated, fails: \<^verbatim>\<open>vertexCount()\<close> returns 32 bits. For a container whose
  first attribute has a view of \<open>2 ^ 32 + 2\<close> elements it answers 2.
\<close>

theorem vertexCount_narrowed_counterexample:
  "vertexCount
     (MeshData_new Array_nullptr Array_nullptr
        (MeshIndexData_new UnsignedByte ArrayView_nullptr)
        [MeshAttributeData_new Positions2D Vector2
           \<lparr>sview_data = 4096, sview_size = 4294967298, sview_stride = 8\<rparr>]
        nullptr) = 2 \<and>
   sview_size (attr_data (m_attributes
     (MeshData_new Array_nullptr Array_nullptr
        (MeshIndexData_new UnsignedByte ArrayView_nullptr)
        [MeshAttributeData_new Positions2D Vector2
           \<lparr>sview_data = 4096, sview_size = 4294967298, sview_stride = 8\<rparr>]
        nullptr) ! 0)) = 4294967298 \<and>
   vertexCount
     (MeshData_new Array_nullptr Array_nullptr
        (MeshIndexData_new UnsignedByte ArrayView_nullptr)
        [MeshAttributeData_new Positions2D Vector2
           \<lparr>sview_data = 4096, sview_size = 4294967298, sview_stride = 8\<rparr>]
        nullptr) \<noteq>
   sview_size (attr_data (m_attributes
     (MeshData_new Array_nullptr Array_nullptr
        (MeshIndexData_new UnsignedByte ArrayView_nullptr)
        [MeshAttributeData_new Positions2D Vector2
           \<lparr>sview_data = 4096, sview_size = 4294967298, sview_stride = 8\<rparr>]
        nullptr) ! 0))"
  by (simp add: vertexCount_def MeshData_new_sel MeshAttributeData_new_def)

text \<open>
  C9, amended. \<^verbatim>\<open>vertexCount()\<close> is 0 for a container with no attributes and
  otherwise the element count of the view of slot 0 as a 32-bit number, that is,
  modulo \<open>2 ^ 32\<close>: the element count itself when that is below \<open>2 ^ 32\<close>. With the
  attributes \<open>a # rest\<close> the answer is that of \<open>a\<close>, whatever \<open>rest\<close> holds.
\<close>

theorem vertexCount_first_slot:
  "vertexCount m =
     (if m_attributes m = [] then 0
      else sview_size (attr_data (m_attributes m ! 0)) mod 2 ^ 32) \<and>
   vertexCount (m\<lparr>m_attributes := []\<rparr>) = 0 \<and>
   vertexCount (m\<lparr>m_attributes := a # rest\<rparr>) = sview_size (attr_data a) mod 2 ^ 32 \<and>
   (sview_size (attr_data a) < 2 ^ 32 \<longrightarrow>
      vertexCount (m\<lparr>m_attributes := a # rest\<rparr>) = sview_size (attr_data a))"
  by (cases "m_attributes m") (simp_all add: vertexCount_def)

text \<open>
  Two attributes of 3 and of 7 elements: the answer is 3, with and without the second.
\<close>

theorem vertexCount_first_slot_witness:
  "vertexCount
     (MeshData_new Array_nullptr Array_nullptr
        (MeshIndexData_new UnsignedByte ArrayView_nullptr)
        [MeshAttributeData_new Positions2D Vector2
           \<lparr>sview_data = 4096, sview_size = 3, sview_stride = 8\<rparr>,
         MeshAttributeData_new Colors Vector3
           \<lparr>sview_data = 8192, sview_size = 7, sview_stride = 12\<rparr>]
        nullptr) = 3 \<and>
   vertexCount
     (MeshData_new Array_nullptr Array_nullptr
        (MeshIndexData_new UnsignedByte ArrayView_nullptr)
        [MeshAttributeData_new Positions2D Vector2
           \<lparr>sview_data = 4096, sview_size = 3, sview_stride = 8\<rparr>]
        nullptr) = 3"
proof -
  let ?a = "MeshAttributeData_new Positions2D Vector2
           \<lparr>sview_data = 4096, sview_size = 3, sview_stride = 8\<rparr>"
  let ?b = "MeshAttributeData_new Colors Vector3
           \<lparr>sview_data = 8192, sview_size = 7, sview_stride = 12\<rparr>"
  let ?m = "MeshData_new Array_nullptr Array_nullptr
        (MeshIndexData_new UnsignedByte ArrayView_nullptr) [] nullptr"
  have small: "sview_size (attr_data ?a) < 2 ^ 32"
    by (simp add: MeshAttributeData_new_def)
  have two: "?m\<lparr>m_attributes := [?a, ?b]\<rparr> =
      MeshData_new Array_nullptr Array_nullptr
        (MeshIndexData_new UnsignedByte ArrayView_nullptr) [?a, ?b] nullptr"
    by (simp add: MeshData_new_def)
  have one: "?m\<lparr>m_attributes := [?a]\<rparr> =
      MeshData_new Array_nullptr Array_nullptr
        (MeshIndexData_new UnsignedByte ArrayView_nullptr) [?a] nullptr"
    by (simp add: MeshData_new_def)
  from vertexCount_first_slot [where m = ?m and a = ?a and rest = "[?b]"] small
  have "vertexCount (?m\<lparr>m_attributes := [?a, ?b]\<rparr>) = sview_size (attr_data ?a)"
    by blast
  moreover from vertexCount_first_slot [where m = ?m and a = ?a and rest = "[]"] small
  have "vertexCount (?m\<lparr>m_attributes := [?a]\<rparr>) = sview_size (attr_data ?a)"
    by blast
  moreover have "sview_size (attr_data ?a) = 3"
    by (simp add: MeshAttributeData_new_def)
  ultimately show ?thesis
    unfolding two one by simp
qed

section \<open>Typed access is checked\<close>

text \<open>The size of an index element type is the width of its type tag.\<close>

lemma sizeof_elementWidth: "sizeof T = elementWidth (meshIndexTypeFor T)"
  by (cases T) simp_all

text \<open>
  C4. \<^verbatim>\<open>indices<T>()\<close> with a \<open>T\<close> whose type tag is not the stored index type ends
  in the assertion and gives no view; with the tag of the stored type it gives the view
  of the stored bytes, at the same address and of as many elements of \<open>T\<close> as the
  byte length holds. For a
  slot in range, \<^verbatim>\<open>attribute<T>(slot)\<close> with a \<open>T\<close> whose tag is not the slot's type
  ends in the assertion, and with the tag of the slot's type it gives the slot's view;
  for a slot out of range it ends in the assertion on the range, whatever \<open>T\<close> is.
\<close>

theorem typed_access_checked:
  "(meshIndexTypeFor T \<noteq> indexType m \<longrightarrow> indices_typed T m = Inl IndicesImproperType) \<and>
   (meshIndexTypeFor T = indexType m \<longrightarrow>
      indices_typed T m =
        Inr \<lparr>view_data = view_data (index_data (m_indices m)),
             view_size = view_size (index_data (m_indices m)) div sizeof T\<rparr>) \<and>
   (slot < length (m_attributes m) \<and>
    meshAttributeTypeFor A \<noteq> attr_type (m_attributes m ! slot) \<longrightarrow>
      attribute A m slot = Inl AttributeImproperType) \<and>
   (slot < length (m_attributes m) \<and>
    meshAttributeTypeFor A = attr_type (m_attributes m ! slot) \<longrightarrow>
      attribute A m slot = Inr (attr_data (m_attributes m ! slot))) \<and>
   (length (m_attributes m) \<le> slot \<longrightarrow> attribute A m slot = Inl AttributeOutOfRange)"
  by (auto simp: indices_typed_def attribute_def indexType_def arrayCast_def
      arrayCast_strided_def)

text \<open>
  Two 16-bit indices and one attribute of two \<^verbatim>\<open>Vector2\<close>: asking for bytes or for
  \<^verbatim>\<open>Vector3\<close> fails, asking for shorts or for \<^verbatim>\<open>Vector2\<close> gives the views, and
  there is no slot 1.
\<close>

theorem typed_access_checked_witness:
  "indices_typed T_UnsignedByte
     (MeshData_new \<lparr>array_data = 4096, array_size = 4\<rparr> \<lparr>array_data = 8192, array_size = 16\<rparr>
        (MeshIndexData_new UnsignedShort \<lparr>view_data = 4096, view_size = 4\<rparr>)
        [MeshAttributeData_new Positions2D Vector2
           \<lparr>sview_data = 8192, sview_size = 2, sview_stride = 8\<rparr>]
        nullptr) = Inl IndicesImproperType \<and>
   indices_typed T_UnsignedShort
     (MeshData_new \<lparr>array_data = 4096, array_size = 4\<rparr> \<lparr>array_data = 8192, array_size = 16\<rparr>
        (MeshIndexData_new UnsignedShort \<lparr>view_data = 4096, view_size = 4\<rparr>)
        [MeshAttributeData_new Positions2D Vector2
           \<lparr>sview_data = 8192, sview_size = 2, sview_stride = 8\<rparr>]
        nullptr) = Inr \<lparr>view_data = 4096, view_size = 2\<rparr> \<and>
   attribute T_Vector3
     (MeshData_new \<lparr>array_data = 4096, array_size = 4\<rparr> \<lparr>array_data = 8192, array_size = 16\<rparr>
        (MeshIndexData_new UnsignedShort \<lparr>view_data = 4096, view_size = 4\<rparr>)
        [MeshAttributeData_new Positions2D Vector2
           \<lparr>sview_data = 8192, sview_size = 2, sview_stride = 8\<rparr>]
        nullptr) 0 = Inl AttributeImproperType \<and>
   attribute T_Vector2
     (MeshData_new \<lparr>array_data = 4096, array_size = 4\<rparr> \<lparr>array_data = 8192, array_size = 16\<rparr>
        (MeshIndexData_new UnsignedShort \<lparr>view_data = 4096, view_size = 4\<rparr>)
        [MeshAttributeData_new Positions2D Vector2
           \<lparr>sview_data = 8192, sview_size = 2, sview_stride = 8\<rparr>]
        nullptr) 0 = Inr \<lparr>sview_data = 8192, sview_size = 2, sview_stride = 8\<rparr> \<and>
   attribute T_Vector2
     (MeshData_new \<lparr>array_data = 4096, array_size = 4\<rparr> \<lparr>array_data = 8192, array_size = 16\<rparr>
        (MeshIndexData_new UnsignedShort \<lparr>view_data = 4096, view_size = 4\<rparr>)
        [MeshAttributeData_new Positions2D Vector2
           \<lparr>sview_data = 8192, sview_size = 2, sview_stride = 8\<rparr>]
        nullptr) 1 = Inl AttributeOutOfRange"
proof -
  let ?m = "MeshData_new \<lparr>array_data = 4096, array_size = 4\<rparr>
        \<lparr>array_data = 8192, array_size = 16\<rparr>
        (MeshIndexData_new UnsignedShort \<lparr>view_data = 4096, view_size = 4\<rparr>)
        [MeshAttributeData_new Positions2D Vector2
           \<lparr>sview_data = 8192, sview_size = 2, sview_stride = 8\<rparr>]
        nullptr"
  show ?thesis
    using typed_access_checked [where T = T_UnsignedByte and m = ?m and slot = 0 and A = T_Vector3]
      typed_access_checked [where T = T_UnsignedShort and m = ?m and slot = 0 and A = T_Vector2]
      typed_access_checked [where T = T_UnsignedShort and m = ?m and slot = 1 and A = T_Vector2]
    by (simp add: MeshData_new_sel MeshIndexData_new_def MeshAttributeData_new_def
        indexType_def)
qed

section \<open>The conversion of the indices\<close>

lemma bytes_value_bound: "bytes_value bs < 256 ^ length bs"
proof (induction bs)
  case Nil
  show ?case by simp
next
  case (Cons b bs)
  have "unat b < 2 ^ LENGTH(8)" by (rule unsigned_less)
  then have "unat b < 256" by simp
  with Cons show ?case by simp
qed

lemma load_bound: "load bo mem p w < 256 ^ w"
  using bytes_value_bound [of "map (\<lambda>k. mem (p + k)) [0..<w]"]
    bytes_value_bound [of "rev (map (\<lambda>k. mem (p + k)) [0..<w])"]
  by (cases bo) (simp_all add: load_def)

text \<open>An element of at most four bytes keeps its value as an \<^verbatim>\<open>UnsignedInt\<close>.\<close>

lemma unat_of_load:
  assumes "w \<le> 4"
  shows "unat (of_nat (load bo mem p w) :: 32 word) = load bo mem p w"
proof -
  have "(256::nat) ^ w \<le> 256 ^ 4" using assms by (rule power_increasing) simp
  with load_bound [of bo mem p w] have "load bo mem p w < 2 ^ 32" by simp
  then show ?thesis by (simp add: unat_of_nat)
qed

lemma sizeof_le: "sizeof T \<le> 4"
  by (cases T) simp_all

lemma length_convertIndices:
  "length (convertIndices T bo mem d) = view_size d div sizeof T"
  by (simp add: convertIndices_def arrayCast_def Let_def)

lemma nth_convertIndices:
  "i < view_size d div sizeof T \<Longrightarrow>
   unat (convertIndices T bo mem d ! i) = load bo mem (view_data d + i * sizeof T) (sizeof T)"
  by (simp add: convertIndices_def arrayCast_def Let_def unat_of_load sizeof_le)

lemma indexCount_eq:
  "indexCount m =
     (view_size (index_data (m_indices m)) div elementWidth (indexType m)) mod 2 ^ 32"
  by (cases "index_type (m_indices m)") (simp_all add: indexCount_def indexType_def)

lemma length_indices:
  "length (indices bo mem m) =
     view_size (index_data (m_indices m)) div elementWidth (indexType m)"
  by (cases "index_type (m_indices m)")
    (simp_all add: indices_def indexType_def length_convertIndices)

lemma nth_indices:
  "i < view_size (index_data (m_indices m)) div elementWidth (indexType m) \<Longrightarrow>
   unat (indices bo mem m ! i) =
     load bo mem (view_data (index_data (m_indices m)) + i * elementWidth (indexType m))
       (elementWidth (indexType m))"
  by (cases "index_type (m_indices m)")
    (simp_all add: indices_def indexType_def nth_convertIndices)

text \<open>
  C5, as stated, fails: the array has as many elements as the index view holds, and
  \<^verbatim>\<open>indexCount()\<close> returns 32 bits. For \<open>2 ^ 32 + 3\<close> byte indices the array has
  \<open>2 ^ 32 + 3\<close> elements and \<^verbatim>\<open>indexCount()\<close> is 3.
\<close>

theorem indices_length_counterexample:
  "length (indices LittleEndian (\<lambda>a. 0)
     (MeshData_new \<lparr>array_data = 4096, array_size = 4294967299\<rparr> Array_nullptr
        (MeshIndexData_new UnsignedByte \<lparr>view_data = 4096, view_size = 4294967299\<rparr>)
        [] nullptr)) = 4294967299 \<and>
   indexCount
     (MeshData_new \<lparr>array_data = 4096, array_size = 4294967299\<rparr> Array_nullptr
        (MeshIndexData_new UnsignedByte \<lparr>view_data = 4096, view_size = 4294967299\<rparr>)
        [] nullptr) = 3 \<and>
   length (indices LittleEndian (\<lambda>a. 0)
     (MeshData_new \<lparr>array_data = 4096, array_size = 4294967299\<rparr> Array_nullptr
        (MeshIndexData_new UnsignedByte \<lparr>view_data = 4096, view_size = 4294967299\<rparr>)
        [] nullptr)) \<noteq>
   indexCount
     (MeshData_new \<lparr>array_data = 4096, array_size = 4294967299\<rparr> Array_nullptr
        (MeshIndexData_new UnsignedByte \<lparr>view_data = 4096, view_size = 4294967299\<rparr>)
        [] nullptr)"
  by (simp add: length_indices indexCount_eq indexType_def MeshData_new_sel
      MeshIndexData_new_def)

text \<open>
  C5, amended. The array that \<^verbatim>\<open>indices()\<close> returns has as many elements as the
  index view holds elements of the stored index type, its byte length divided by the
  element width; \<^verbatim>\<open>indexCount()\<close> is this number as a 32-bit number, so the two are
  equal whenever the array has fewer than \<open>2 ^ 32\<close> elements. Element \<open>i\<close> of the array
  has the value of the stored index \<open>i\<close>: the number that the bytes of group \<open>i\<close> of
  the index view, each group as wide as the stored index type, make up. This holds for
  the three index types and in either byte order.
\<close>

theorem indices_widen:
  "length (indices bo mem m) =
     view_size (index_data (m_indices m)) div elementWidth (indexType m) \<and>
   indexCount m = length (indices bo mem m) mod 2 ^ 32 \<and>
   (length (indices bo mem m) < 2 ^ 32 \<longrightarrow> length (indices bo mem m) = indexCount m) \<and>
   (\<forall>i < length (indices bo mem m).
      unat (indices bo mem m ! i) =
        load bo mem (view_data (index_data (m_indices m)) + i * elementWidth (indexType m))
          (elementWidth (indexType m)))"
  by (simp add: length_indices indexCount_eq nth_indices)

text \<open>
  The bytes 1, 2, 255 at the addresses 4096 to 4098, as a buffer of byte indices:
  \<^verbatim>\<open>indices()\<close> gives the three values 1, 2, 255, in this order.
\<close>

theorem indices_widen_witness:
  "indexCount
     (MeshData_new \<lparr>array_data = 4096, array_size = 3\<rparr> Array_nullptr
        (MeshIndexData_new UnsignedByte \<lparr>view_data = 4096, view_size = 3\<rparr>) [] nullptr) = 3 \<and>
   length (indices LittleEndian
     (\<lambda>a. if a = 4096 then 1 else if a = 4097 then 2 else if a = 4098 then 255 else 0)
     (MeshData_new \<lparr>array_data = 4096, array_size = 3\<rparr> Array_nullptr
        (MeshIndexData_new UnsignedByte \<lparr>view_data = 4096, view_size = 3\<rparr>) [] nullptr)) = 3 \<and>
   unat (indices LittleEndian
     (\<lambda>a. if a = 4096 then 1 else if a = 4097 then 2 else if a = 4098 then 255 else 0)
     (MeshData_new \<lparr>array_data = 4096, array_size = 3\<rparr> Array_nullptr
        (MeshIndexData_new UnsignedByte \<lparr>view_data = 4096, view_size = 3\<rparr>) [] nullptr) ! 0) = 1 \<and>
   unat (indices LittleEndian
     (\<lambda>a. if a = 4096 then 1 else if a = 4097 then 2 else if a = 4098 then 255 else 0)
     (MeshData_new \<lparr>array_data = 4096, array_size = 3\<rparr> Array_nullptr
        (MeshIndexData_new UnsignedByte \<lparr>view_data = 4096, view_size = 3\<rparr>) [] nullptr) ! 1) = 2 \<and>
   unat (indices LittleEndian
     (\<lambda>a. if a = 4096 then 1 else if a = 4097 then 2 else if a = 4098 then 255 else 0)
     (MeshData_new \<lparr>array_data = 4096, array_size = 3\<rparr> Array_nullptr
        (MeshIndexData_new UnsignedByte \<lparr>view_data = 4096, view_size = 3\<rparr>) [] nullptr) ! 2) = 255 \<and>
   indices LittleEndian
     (\<lambda>a. if a = 4096 then 1 else if a = 4097 then 2 else if a = 4098 then 255 else 0)
     (MeshData_new \<lparr>array_data = 4096, array_size = 3\<rparr> Array_nullptr
        (MeshIndexData_new UnsignedByte \<lparr>view_data = 4096, view_size = 3\<rparr>) [] nullptr) =
     [1, 2, 255]"
proof -
  let ?mem = "\<lambda>a::nat. if a = 4096 then (1::8 word) else if a = 4097 then 2
                else if a = 4098 then 255 else 0"
  let ?m = "MeshData_new \<lparr>array_data = 4096, array_size = 3\<rparr> Array_nullptr
        (MeshIndexData_new UnsignedByte \<lparr>view_data = 4096, view_size = 3\<rparr>) [] nullptr"
  have elems: "indices LittleEndian ?mem ?m = [1, 2, 255]"
    by (simp add: indices_def MeshData_new_sel MeshIndexData_new_def convertIndices_def
        arrayCast_def load_def upt_rec)
  from indices_widen [of LittleEndian ?mem ?m]
  have "length (indices LittleEndian ?mem ?m) = 3 \<and>
        indexCount ?m = 3 \<and>
        unat (indices LittleEndian ?mem ?m ! 0) = 1 \<and>
        unat (indices LittleEndian ?mem ?m ! 1) = 2 \<and>
        unat (indices LittleEndian ?mem ?m ! 2) = 255"
    by (simp add: indexType_def MeshData_new_sel MeshIndexData_new_def load_def upt_rec)
  with elems show ?thesis by simp
qed

section \<open>The conversion of the positions\<close>

text \<open>
  C8. \<^verbatim>\<open>positions2D(nth)\<close> is to return a new array of the positions, as many as
  the mesh has vertices. The function is not finished: for a mesh of three vertices
  with one Positions2D attribute of type \<^verbatim>\<open>Vector2\<close>, the lookup finds slot 0 and the
  assertion on the type holds, and no array comes back.
\<close>

theorem positions2D_returns_no_array:
  "vertexCount
     (MeshData_new Array_nullptr \<lparr>array_data = 4096, array_size = 24\<rparr>
        (MeshIndexData_new UnsignedByte ArrayView_nullptr)
        [MeshAttributeData_new Positions2D Vector2
           \<lparr>sview_data = 4096, sview_size = 3, sview_stride = 8\<rparr>]
        nullptr) = 3 \<and>
   attributeFor
     (MeshData_new Array_nullptr \<lparr>array_data = 4096, array_size = 24\<rparr>
        (MeshIndexData_new UnsignedByte ArrayView_nullptr)
        [MeshAttributeData_new Positions2D Vector2
           \<lparr>sview_data = 4096, sview_size = 3, sview_stride = 8\<rparr>]
        nullptr) Positions2D 0 = Inr 0 \<and>
   positions2D
     (MeshData_new Array_nullptr \<lparr>array_data = 4096, array_size = 24\<rparr>
        (MeshIndexData_new UnsignedByte ArrayView_nullptr)
        [MeshAttributeData_new Positions2D Vector2
           \<lparr>sview_data = 4096, sview_size = 3, sview_stride = 8\<rparr>]
        nullptr) 0 = Inl NoValueReturned"
  by (simp add: vertexCount_def positions2D_def attributeFor_def MeshData_new_sel
      MeshAttributeData_new_def)

section \<open>Release\<close>

text \<open>
  C6. \<^verbatim>\<open>releaseIndices()\<close> returns the owned index array and leaves the container
  not indexed, its index view the null view and its index array empty. A second call
  returns the empty array and leaves the container as the first call left it.
\<close>

theorem releaseIndices_twice:
  "fst (releaseIndices m) = m_indexData m \<and>
   \<not> isIndexed (snd (releaseIndices m)) \<and>
   index_data (m_indices (snd (releaseIndices m))) = ArrayView_nullptr \<and>
   m_indexData (snd (releaseIndices m)) = Array_nullptr \<and>
   fst (releaseIndices (snd (releaseIndices m))) = Array_nullptr \<and>
   snd (releaseIndices (snd (releaseIndices m))) = snd (releaseIndices m)"
  by (simp add: releaseIndices_def Array_move_def isIndexed_def ArrayView_bool_def
      ArrayView_nullptr_def Let_def)

text \<open>
  C10. \<^verbatim>\<open>releaseIndices()\<close> leaves the vertex array, the attributes, the stored index
  type and the importer state as they were: the container after the call is the one
  before it with the index view and the index array reset. \<^verbatim>\<open>releaseVertices()\<close>
  leaves the index array, the index description and the importer state as they were:
  the container after the call is the one before it with the attributes and the vertex
  array reset.
\<close>

theorem release_frame:
  "m_vertexData (snd (releaseIndices m)) = m_vertexData m \<and>
   m_attributes (snd (releaseIndices m)) = m_attributes m \<and>
   index_type (m_indices (snd (releaseIndices m))) = index_type (m_indices m) \<and>
   m_importerState (snd (releaseIndices m)) = m_importerState m \<and>
   snd (releaseIndices m) =
     m\<lparr>m_indices := (m_indices m)\<lparr>index_data := ArrayView_nullptr\<rparr>,
       m_indexData := Array_nullptr\<rparr> \<and>
   m_indexData (snd (releaseVertices m)) = m_indexData m \<and>
   m_indices (snd (releaseVertices m)) = m_indices m \<and>
   m_importerState (snd (releaseVertices m)) = m_importerState m \<and>
   snd (releaseVertices m) = m\<lparr>m_attributes := [], m_vertexData := Array_nullptr\<rparr>"
  by (simp add: releaseIndices_def releaseVertices_def Array_move_def Let_def)

section \<open>Move\<close>



end
